theory Spec2Isabelle
  imports Complex_Main "HOL-Library.Sublist"
begin

section \<open>Data model (models.py)\<close>

text \<open>
  The pydantic models of \<^verbatim>\<open>models.py\<close> as records. Python's \<^verbatim>\<open>str\<close> is a
  \<open>string\<close>, \<^verbatim>\<open>int\<close> is the unbounded \<open>int\<close>, \<^verbatim>\<open>Optional[str]\<close> with default
  \<^verbatim>\<open>None\<close> is a \<open>string option\<close>, and \<^verbatim>\<open>List[...]\<close> is a list. The field
  \<^verbatim>\<open>text\<close> of a segment is called \<open>segment_text\<close>, since \<^verbatim>\<open>text\<close> is a
  reserved word of the theory language. Both a segment and a speaker have a field
  \<open>voice_id\<close>; they are told apart as \<open>TranscriptSegment.voice_id\<close> and
  \<open>Speaker.voice_id\<close>.
\<close>

record TranscriptSegment =
  start_time :: string
  end_time :: string
  segment_text :: string
  voice_id :: int
  emotion :: "string option"
  tone :: "string option"
  energy_level :: "string option"
  speech_rate :: "string option"

record Speaker =
  voice_id :: int
  name :: string
  company :: string
  position :: string
  role_in_video :: string

record TranslationTable =
  line_number :: int
  speaker :: string
  source_iso :: string
  target_iso :: string

record VideoTranscription =
  script_segments :: "TranscriptSegment list"
  speakers :: "Speaker list"
  translation_table :: "TranslationTable list"
  video_duration :: "string option"
  total_segments :: int
  total_speakers :: int
  language_detected :: "string option"

text \<open>
  \<^verbatim>\<open>VideoTranscription()\<close>: every field takes its declared default
  (\<^verbatim>\<open>default_factory=list\<close>, \<^verbatim>\<open>default=None\<close>, \<^verbatim>\<open>default=0\<close>).
\<close>

definition VideoTranscription_default :: VideoTranscription where
  "VideoTranscription_default =
     \<lparr>script_segments = [], speakers = [], translation_table = [],
      video_duration = None, total_segments = 0, total_speakers = 0,
      language_detected = None\<rparr>"

text \<open>
  \<^verbatim>\<open>update_counts\<close> assigns both count fields from \<^verbatim>\<open>len\<close> of the lists; the
  mutated object is returned as the new value.
\<close>

definition update_counts :: "VideoTranscription \<Rightarrow> VideoTranscription" where
  "update_counts self =
     (let self1 = self\<lparr>total_segments := int (length (script_segments self))\<rparr>
      in self1\<lparr>total_speakers := int (length (speakers self1))\<rparr>)"

text \<open>
  \<^verbatim>\<open>get_speaker_by_voice_id\<close>: the loop returns at the first speaker whose
  \<open>voice_id\<close> is the one asked for, and \<^verbatim>\<open>None\<close> after the last.
\<close>

fun speaker_by_voice_id_loop :: "Speaker list \<Rightarrow> int \<Rightarrow> Speaker option" where
  "speaker_by_voice_id_loop [] v = None"
| "speaker_by_voice_id_loop (s # rest) v =
     (if Speaker.voice_id s = v then Some s else speaker_by_voice_id_loop rest v)"

definition get_speaker_by_voice_id :: "VideoTranscription \<Rightarrow> int \<Rightarrow> Speaker option" where
  "get_speaker_by_voice_id self v = speaker_by_voice_id_loop (speakers self) v"

text \<open>
  \<^verbatim>\<open>get_segments_by_speaker\<close> has two loops. The first walks \<^verbatim>\<open>self.speakers\<close>
  and breaks at the first speaker whose name equals \<^verbatim>\<open>speaker_name\<close>; the variable
  \<^verbatim>\<open>speaker\<close> stays \<^verbatim>\<open>None\<close> when there is none. The second runs only when a
  speaker was found (a pydantic object is always truthy) and appends, in order, each
  segment whose \<open>voice_id\<close> equals the speaker's.
\<close>

fun find_speaker_loop :: "Speaker list \<Rightarrow> string \<Rightarrow> Speaker option" where
  "find_speaker_loop [] speaker_name = None"
| "find_speaker_loop (s # rest) speaker_name =
     (if name s = speaker_name then Some s else find_speaker_loop rest speaker_name)"

fun collect_segments_loop ::
  "TranscriptSegment list \<Rightarrow> Speaker \<Rightarrow> TranscriptSegment list \<Rightarrow> TranscriptSegment list" where
  "collect_segments_loop [] sp segments = segments"
| "collect_segments_loop (segment # rest) sp segments =
     collect_segments_loop rest sp
       (if TranscriptSegment.voice_id segment = Speaker.voice_id sp
        then segments @ [segment] else segments)"

definition get_segments_by_speaker ::
  "VideoTranscription \<Rightarrow> string \<Rightarrow> TranscriptSegment list" where
  "get_segments_by_speaker self speaker_name =
     (case find_speaker_loop (speakers self) speaker_name of
        None \<Rightarrow> []
      | Some sp \<Rightarrow> collect_segments_loop (script_segments self) sp [])"

section \<open>Configuration constants (config.py)\<close>

text \<open>
  The frame-rate bounds are Python floats. \<^verbatim>\<open>MAX_FPS = 24.0\<close> is exact;
  \<^verbatim>\<open>MIN_FPS = 0.1\<close> is the double nearest to one tenth, whose exact value is
  \<open>3602879701896397 / 2 ^ 55\<close>.
\<close>

definition DEFAULT_MODEL :: string where
  "DEFAULT_MODEL = ''gemini-2.0-flash''"

definition MAX_FPS :: real where
  "MAX_FPS = 24"

definition MIN_FPS :: real where
  "MIN_FPS = 3602879701896397 / 36028797018963968"

definition DEFAULT_TIMECODE_FORMAT :: string where
  "DEFAULT_TIMECODE_FORMAT = ''MM:SS''"

definition EXTENDED_TIMECODE_FORMAT :: string where
  "EXTENDED_TIMECODE_FORMAT = ''H:MM:SS''"

section \<open>Python values used by the transcriber\<close>

text \<open>
  A Python \<^verbatim>\<open>float\<close>: a finite value (read as the real it denotes), an infinity or
  NaN. Only three operations of the source touch a float: its truth value (zero is
  false, everything else, NaN included, is true) and the comparisons \<^verbatim>\<open><\<close> and
  \<^verbatim>\<open>>\<close> against a finite constant (both false on NaN).
\<close>

datatype pyfloat = Finite real | PosInf | NegInf | NaN

fun float_truthy :: "pyfloat \<Rightarrow> bool" where
  "float_truthy (Finite x) = (x \<noteq> 0)"
| "float_truthy PosInf = True"
| "float_truthy NegInf = True"
| "float_truthy NaN = True"

fun float_lt :: "pyfloat \<Rightarrow> real \<Rightarrow> bool" where
  "float_lt (Finite x) c = (x < c)"
| "float_lt PosInf c = False"
| "float_lt NegInf c = True"
| "float_lt NaN c = False"

fun float_gt :: "pyfloat \<Rightarrow> real \<Rightarrow> bool" where
  "float_gt (Finite x) c = (x > c)"
| "float_gt PosInf c = True"
| "float_gt NegInf c = False"
| "float_gt NaN c = False"

text \<open>
  A \<^verbatim>\<open>datetime.timedelta\<close> is an exact count of microseconds between
  \<^verbatim>\<open>timedelta.min\<close> and \<^verbatim>\<open>timedelta.max\<close>. Its truth value is false exactly
  for the zero duration, and a subtraction whose result leaves the range raises
  \<^verbatim>\<open>OverflowError\<close>.
\<close>

type_synonym timedelta = int

definition timedelta_hours :: "int \<Rightarrow> timedelta" where
  "timedelta_hours h = h * 3600000000"

definition timedelta_min :: timedelta where
  "timedelta_min = - 999999999 * 86400000000"

definition timedelta_max :: timedelta where
  "timedelta_max = 999999999 * 86400000000 + 86399999999"

definition timedelta_truthy :: "timedelta \<Rightarrow> bool" where
  "timedelta_truthy d = (d \<noteq> 0)"

text \<open>
  The exceptions that can travel through \<^verbatim>\<open>transcribe_video\<close>. A
  \<^verbatim>\<open>ClientError\<close> and a \<^verbatim>\<open>ServerError\<close> of the SDK carry an integer status
  \<open>code\<close> and a \<open>message\<close> that may be \<^verbatim>\<open>None\<close>; \<open>RetryError\<close> and
  \<open>TryAgain\<close> are the two exceptions of the retry library; \<open>OtherException\<close> stands for
  any exception that is not an instance of \<^verbatim>\<open>ClientError\<close> and is none of the
  others.
\<close>

datatype exn =
    ClientError int "string option"
  | ServerError int "string option"
  | ValueError string
  | OverflowError
  | RetryError
  | TryAgain
  | OtherException string

definition timedelta_sub :: "timedelta \<Rightarrow> timedelta \<Rightarrow> exn + timedelta" where
  "timedelta_sub a b =
     (if timedelta_min \<le> a - b \<and> a - b \<le> timedelta_max then Inr (a - b)
      else Inl OverflowError)"

text \<open>
  \<^verbatim>\<open>s.removeprefix(p)\<close> and the substring test \<^verbatim>\<open>sub in s\<close> on strings;
  \<^verbatim>\<open>s.startswith(p)\<close> is \<open>prefix p s\<close>. The prefixes and the phrase the source
  tests for are ASCII, so testing bytes of the UTF-8 form agrees with testing code
  points.
\<close>

definition removeprefix :: "string \<Rightarrow> string \<Rightarrow> string" where
  "removeprefix p s = (if prefix p s then drop (length p) s else s)"

fun str_in :: "string \<Rightarrow> string \<Rightarrow> bool" where
  "str_in sub [] = (sub = [])"
| "str_in sub (c # cs) = (prefix sub (c # cs) \<or> str_in sub cs)"

section \<open>Request builder (transcriber.py)\<close>

text \<open>
  The client is seen through its flag \<^verbatim>\<open>client.vertexai\<close> only: true for the
  Vertex AI backend, false for Google AI Studio. The video part keeps the URI, the
  MIME type and the metadata that \<^verbatim>\<open>get_video_part\<close> sets; an offset is kept as
  the duration whose \<^verbatim>\<open>total_seconds()\<close> the source renders into a string.
\<close>

record Client =
  vertexai :: bool

record FileData =
  file_uri :: string
  mime_type :: string

record VideoMetadata =
  start_offset :: "timedelta option"
  end_offset :: "timedelta option"
  fps :: "pyfloat option"

record Part =
  file_data :: FileData
  video_metadata :: VideoMetadata

text \<open>
  The first statement of \<^verbatim>\<open>get_video_part\<close>: a \<^verbatim>\<open>gs://\<close> URI becomes an HTTPS
  object URL when the backend is not Vertex AI, and any other URI is kept.
\<close>

definition rewrite_cloud_storage_uri :: "Client \<Rightarrow> string \<Rightarrow> string" where
  "rewrite_cloud_storage_uri client video_uri =
     (if \<not> vertexai client \<and> prefix ''gs://'' video_uri
      then ''https://storage.googleapis.com/'' @ removeprefix ''gs://'' video_uri
      else video_uri)"

text \<open>
  \<^verbatim>\<open>get_video_part\<close>: after the rewriting, the capability check returns
  \<^verbatim>\<open>None\<close>; otherwise the part is built, each optional argument being stored only
  when it is truthy.
\<close>

definition get_video_part ::
  "Client \<Rightarrow> string \<Rightarrow> timedelta option \<Rightarrow> timedelta option \<Rightarrow> pyfloat option \<Rightarrow> Part option" where
  "get_video_part client video_uri0 start_offset_arg end_offset_arg fps_arg =
     (let video_uri = rewrite_cloud_storage_uri client video_uri0 in
      if \<not> vertexai client \<and> \<not> prefix ''https://www.youtube.com/watch?v='' video_uri
      then None
      else Some
        \<lparr>file_data = \<lparr>file_uri = video_uri, mime_type = ''video/*''\<rparr>,
         video_metadata =
           \<lparr>start_offset =
              (case start_offset_arg of None \<Rightarrow> None
               | Some d \<Rightarrow> if timedelta_truthy d then Some d else None),
            end_offset =
              (case end_offset_arg of None \<Rightarrow> None
               | Some d \<Rightarrow> if timedelta_truthy d then Some d else None),
            fps =
              (case fps_arg of None \<Rightarrow> None
               | Some f \<Rightarrow> if float_truthy f then Some f else None)\<rparr>\<rparr>)"

text \<open>
  \<^verbatim>\<open>get_timecode_format\<close>: the extended format when the duration is truthy and at
  least \<^verbatim>\<open>timedelta(hours=1)\<close>, the default format otherwise.
\<close>

definition get_timecode_format :: "timedelta option \<Rightarrow> string" where
  "get_timecode_format video_duration_arg =
     (case video_duration_arg of
        None \<Rightarrow> DEFAULT_TIMECODE_FORMAT
      | Some d \<Rightarrow>
          if timedelta_truthy d \<and> d \<ge> timedelta_hours 1 then EXTENDED_TIMECODE_FORMAT
          else DEFAULT_TIMECODE_FORMAT)"

text \<open>
  The argument that \<^verbatim>\<open>transcribe_video\<close> passes to \<^verbatim>\<open>get_timecode_format\<close>:
  \<^verbatim>\<open>end_offset - start_offset if start_offset and end_offset else None\<close>. The
  condition tests the truth value of both offsets, not whether they are \<^verbatim>\<open>None\<close>.
\<close>

definition window_duration ::
  "timedelta option \<Rightarrow> timedelta option \<Rightarrow> exn + timedelta option" where
  "window_duration start_offset_arg end_offset_arg =
     (case (start_offset_arg, end_offset_arg) of
        (Some s, Some e) \<Rightarrow>
          if timedelta_truthy s \<and> timedelta_truthy e
          then (case timedelta_sub e s of Inl err \<Rightarrow> Inl err | Inr d \<Rightarrow> Inr (Some d))
          else Inr None
      | _ \<Rightarrow> Inr None)"

text \<open>
  The prompt sent to the model. \<^verbatim>\<open>get_transcription_prompt\<close> returns a fixed
  two-task instruction with one hole, filled by the timecode format; it is kept as
  \<open>TranscriptionPrompt\<close> of that format. A truthy \<^verbatim>\<open>custom_prompt\<close> replaces it.
  The text of a prompt is not looked at here, and the final \<^verbatim>\<open>prompt.strip()\<close> is
  left out.
\<close>

datatype prompt = TranscriptionPrompt string | CustomPrompt string

definition get_transcription_prompt :: "string \<Rightarrow> prompt" where
  "get_transcription_prompt timecode_format = TranscriptionPrompt timecode_format"

definition select_prompt ::
  "string option \<Rightarrow> timedelta option \<Rightarrow> timedelta option \<Rightarrow> exn + prompt" where
  "select_prompt custom_prompt start_offset_arg end_offset_arg =
     (case custom_prompt of
        Some (c # cs) \<Rightarrow> Inr (CustomPrompt (c # cs))
      | _ \<Rightarrow>
          (case window_duration start_offset_arg end_offset_arg of
             Inl err \<Rightarrow> Inl err
           | Inr d \<Rightarrow> Inr (get_transcription_prompt (get_timecode_format d))))"

text \<open>
  What one call of \<^verbatim>\<open>client.models.generate_content\<close> receives: the model name
  and the contents (video part and prompt). The generation configuration is a fixed
  function of the model name and is left out.
\<close>

record GenerateContentRequest =
  request_model :: string
  request_video :: Part
  request_prompt :: prompt

section \<open>Retrying invoker (transcriber.py)\<close>

text \<open>
  The response is seen through \<^verbatim>\<open>response.parsed\<close> only: an instance of
  \<^verbatim>\<open>VideoTranscription\<close>, \<^verbatim>\<open>None\<close>, or some other value. One attempt either
  returns a response or raises.
\<close>

datatype parsed_value =
    ParsedTranscription VideoTranscription
  | ParsedNone
  | ParsedOther

record GenerateContentResponse =
  parsed :: parsed_value

datatype attempt_outcome = Returned GenerateContentResponse | Raised exn

record RetryCallState =
  outcome :: "attempt_outcome option"
  attempt_number :: nat

text \<open>
  \<^verbatim>\<open>_should_retry_request\<close>. Without an outcome the answer is no. The exception
  of a returned attempt is \<^verbatim>\<open>None\<close>, which is not a \<^verbatim>\<open>ClientError\<close>. For a
  \<^verbatim>\<open>ClientError\<close> the \<^verbatim>\<open>if\<close>/\<^verbatim>\<open>elif\<close> of the source decides.
\<close>

definition should_retry_request :: "RetryCallState \<Rightarrow> bool" where
  "should_retry_request retry_state =
     (case outcome retry_state of
        None \<Rightarrow> False
      | Some (Returned response) \<Rightarrow> False
      | Some (Raised err) \<Rightarrow>
          (case err of
             ClientError code message \<Rightarrow>
               if code = 400 \<and>
                  (case message of None \<Rightarrow> False
                   | Some m \<Rightarrow> m \<noteq> [] \<and> str_in '' try again '' m)
               then True
               else if code = 429 then True
               else False
           | _ \<Rightarrow> False))"

text \<open>
  \<^verbatim>\<open>tenacity.Retrying\<close> with the four arguments \<^verbatim>\<open>get_retrier\<close> gives it:
  \<^verbatim>\<open>stop_after_attempt(n)\<close> stops once the attempt number has reached \<open>n\<close>;
  \<^verbatim>\<open>wait_incrementing(start, increment)\<close> sleeps
  \<open>start + increment * (attempt_number - 1)\<close>, clamped between zero and the
  library's \<^verbatim>\<open>MAX_WAIT\<close>; \<open>retry\<close> is the predicate asked after an attempt;
  \<open>reraise\<close> makes exhaustion raise the last attempt's own exception instead of a
  \<^verbatim>\<open>RetryError\<close>. The library has one retry of its own, before the predicate is
  asked: an attempt that raised \<^verbatim>\<open>tenacity.TryAgain\<close> is an explicit retry.
\<close>

record Retrying =
  max_attempt_number :: nat
  wait_start :: int
  wait_increment :: int
  retry :: "RetryCallState \<Rightarrow> bool"
  reraise :: bool

definition MAX_WAIT :: int where
  "MAX_WAIT = 2 ^ 62"

definition stop_after_attempt :: "Retrying \<Rightarrow> RetryCallState \<Rightarrow> bool" where
  "stop_after_attempt r retry_state = (attempt_number retry_state \<ge> max_attempt_number r)"

definition wait_incrementing :: "Retrying \<Rightarrow> RetryCallState \<Rightarrow> int" where
  "wait_incrementing r retry_state =
     max 0 (min (wait_start r + wait_increment r * (int (attempt_number retry_state) - 1))
                MAX_WAIT)"

definition is_explicit_retry :: "attempt_outcome \<Rightarrow> bool" where
  "is_explicit_retry out = (out = Raised TryAgain)"

definition get_retrier :: Retrying where
  "get_retrier =
     \<lparr>max_attempt_number = 7, wait_start = 10, wait_increment = 1,
      retry = should_retry_request, reraise = True\<rparr>"

text \<open>
  What a run of the invoker leaves behind: the value returned or the exception
  raised, the number of calls made to the remote model, and the sleeps taken between
  them, in order (in seconds).
\<close>

record 'a invocation =
  result :: "exn + 'a"
  calls :: nat
  sleeps :: "int list"

text \<open>
  The loop \<^verbatim>\<open>for attempt in self.get_retrier(): with attempt: ...\<close>. The remote
  model is a script \<open>generate_content\<close> giving the outcome of the body of
  attempt \<open>n\<close> (attempts count from 1): the call, followed by
  \<^verbatim>\<open>_display_response_info\<close>, which only prints. After each attempt the library
  decides as its
  \<^verbatim>\<open>iter\<close> does: unless the attempt is an explicit retry or the predicate says
  yes, the loop ends with the attempt's outcome (the response, or its exception raised
  as it is); else, if the stop condition holds, the loop raises (with \<open>reraise\<close>, the
  exception of the last attempt itself); otherwise it sleeps and makes the next
  attempt.
\<close>

function retry_loop ::
  "Retrying \<Rightarrow> (nat \<Rightarrow> attempt_outcome) \<Rightarrow> nat \<Rightarrow> int list
     \<Rightarrow> GenerateContentResponse invocation" where
  "retry_loop r generate_content n slept =
     (let out = generate_content n;
          retry_state = \<lparr>outcome = Some out, attempt_number = n\<rparr>
      in if \<not> (is_explicit_retry out \<or> retry r retry_state)
         then \<lparr>result = (case out of Returned response \<Rightarrow> Inr response | Raised err \<Rightarrow> Inl err),
               calls = n, sleeps = slept\<rparr>
         else if stop_after_attempt r retry_state
         then \<lparr>result =
                 Inl (case out of
                        Returned response \<Rightarrow> RetryError
                      | Raised err \<Rightarrow> if reraise r then err else RetryError),
               calls = n, sleeps = slept\<rparr>
         else retry_loop r generate_content (Suc n)
                (slept @ [wait_incrementing r retry_state]))"
  by pat_completeness auto
termination
  by (relation "measure (\<lambda>(r, generate_content, n, slept). max_attempt_number r - n)")
     (auto simp: stop_after_attempt_def)

definition call_with_retries ::
  "Retrying \<Rightarrow> (nat \<Rightarrow> attempt_outcome) \<Rightarrow> GenerateContentResponse invocation" where
  "call_with_retries r generate_content = retry_loop r generate_content 1 []"

section \<open>Response interpreter and the whole request (transcriber.py)\<close>

text \<open>
  \<^verbatim>\<open>_parse_response\<close>: anything but a \<^verbatim>\<open>VideoTranscription\<close> instance gives a
  fresh default aggregate; an instance has its counts refreshed and is returned.
\<close>

definition parse_response :: "GenerateContentResponse \<Rightarrow> VideoTranscription" where
  "parse_response response =
     (case parsed response of
        ParsedTranscription transcription \<Rightarrow> update_counts transcription
      | _ \<Rightarrow> VideoTranscription_default)"

text \<open>
  The frame-rate check of \<^verbatim>\<open>transcribe_video\<close>:
  \<^verbatim>\<open>fps and (fps < Config.MIN_FPS or fps > Config.MAX_FPS)\<close>.
\<close>

definition fps_rejected :: "pyfloat option \<Rightarrow> bool" where
  "fps_rejected fps_arg =
     (case fps_arg of
        None \<Rightarrow> False
      | Some f \<Rightarrow> float_truthy f \<and> (float_lt f MIN_FPS \<or> float_gt f MAX_FPS))"

text \<open>
  \<^verbatim>\<open>transcribe_video\<close>, in the order of the source: the model name, the frame-rate
  check (raising \<^verbatim>\<open>ValueError\<close>), the video part (an empty transcription when there
  is none), the prompt, the retried remote call, and the interpretation of the
  response. The remote model is a script that, given the request, tells the outcome
  of each attempt.
\<close>

definition transcribe_video ::
  "Client \<Rightarrow> (GenerateContentRequest \<Rightarrow> nat \<Rightarrow> attempt_outcome) \<Rightarrow> string
     \<Rightarrow> timedelta option \<Rightarrow> timedelta option \<Rightarrow> pyfloat option
     \<Rightarrow> string option \<Rightarrow> string option \<Rightarrow> VideoTranscription invocation" where
  "transcribe_video client generate_content video_uri start_offset_arg end_offset_arg
       fps_arg model_arg custom_prompt =
     (let model = (case model_arg of Some (c # cs) \<Rightarrow> c # cs | _ \<Rightarrow> DEFAULT_MODEL) in
      if fps_rejected fps_arg
      then \<lparr>result = Inl (ValueError ''FPS must be between 0.1 and 24.0''),
            calls = 0, sleeps = []\<rparr>
      else
        (case get_video_part client video_uri start_offset_arg end_offset_arg fps_arg of
           None \<Rightarrow> \<lparr>result = Inr VideoTranscription_default, calls = 0, sleeps = []\<rparr>
         | Some video_part \<Rightarrow>
             (case select_prompt custom_prompt start_offset_arg end_offset_arg of
                Inl err \<Rightarrow> \<lparr>result = Inl err, calls = 0, sleeps = []\<rparr>
              | Inr prompt \<Rightarrow>
                  (let run = call_with_retries get_retrier
                               (generate_content
                                  \<lparr>request_model = model, request_video = video_part,
                                   request_prompt = prompt\<rparr>)
                   in \<lparr>result =
                          (case result run of
                             Inl err \<Rightarrow> Inl err
                           | Inr response \<Rightarrow> Inr (parse_response response)),
                        calls = calls run, sleeps = sleeps run\<rparr>))))"

text \<open>
  \<^verbatim>\<open>transcribe_youtube_video\<close> and \<^verbatim>\<open>transcribe_cloud_storage_video\<close> build the
  URI and call \<^verbatim>\<open>transcribe_video\<close>.
\<close>

definition transcribe_youtube_video ::
  "Client \<Rightarrow> (GenerateContentRequest \<Rightarrow> nat \<Rightarrow> attempt_outcome) \<Rightarrow> string
     \<Rightarrow> timedelta option \<Rightarrow> timedelta option \<Rightarrow> pyfloat option
     \<Rightarrow> string option \<Rightarrow> string option \<Rightarrow> VideoTranscription invocation" where
  "transcribe_youtube_video client generate_content youtube_id =
     transcribe_video client generate_content (''https://www.youtube.com/watch?v='' @ youtube_id)"

text \<open>
  The request that \<open>transcribe_video\<close> hands to the remote model once the part
  and the prompt are built: the record in its call of \<open>generate_content\<close>.
\<close>

definition sent_request :: "string option \<Rightarrow> Part \<Rightarrow> prompt \<Rightarrow> GenerateContentRequest" where
  "sent_request model_arg video_part pr =
     \<lparr>request_model = (case model_arg of Some (c # cs) \<Rightarrow> c # cs | _ \<Rightarrow> DEFAULT_MODEL),
      request_video = video_part, request_prompt = pr\<rparr>"

section \<open>External JSON form of the data model\<close>

text \<open>
  Modelled from the spec: the external JSON form of the aggregate and the way back
  from it. The spec (sections 6 and 8) says that the aggregate is serialized to JSON
  under the field names of section 3 and that parsing that JSON back gives the same
  values. The source writes the form with
  \<^verbatim>\<open>json.dump(transcription.model_dump(), f, indent=2, ensure_ascii=False)\<close>
  (\<^verbatim>\<open>main.py\<close>); both calls are library code, outside the source files, and no
  function of the repository reads the exported JSON again. What is modelled:

  \<^item> \<^verbatim>\<open>model_dump()\<close> builds a tree of dictionaries, lists, strings, integers and
    \<^verbatim>\<open>None\<close>, with every declared field in declaration order under its Python
    name. It never fails.
  \<^item> \<^verbatim>\<open>json.dump\<close> turns the tree into text. The text is not modelled character
    by character: a written text is represented by the JSON value it denotes. What is
    modelled is where writing fails: Python refuses to print an integer of more than
    4300 decimal digits and raises \<^verbatim>\<open>ValueError\<close>.
  \<^item> A Python string is represented by its UTF-8 bytes. A string holding a lone
    surrogate has no UTF-8 form and is therefore not a value of \<open>string\<close>; for
    such a string writing the file raises \<^verbatim>\<open>UnicodeEncodeError\<close>, which the model
    cannot express.
  \<^item> Parsing back reads each field under its name (of a repeated key the last
    occurrence counts, unknown keys are ignored). A field declared without default is
    required; a missing field with a default takes it; \<^verbatim>\<open>null\<close> is accepted only
    for an \<^verbatim>\<open>Optional\<close> field. The parser accepts exactly the JSON types the
    serializer emits for a field; it does not model the coercions of pydantic's lax
    validation (a numeric string or a boolean for an \<^verbatim>\<open>int\<close>), which no exported
    form contains.
\<close>

datatype json =
    JNull
  | JBool bool
  | JInt int
  | JString string
  | JArray "json list"
  | JObject "(string \<times> json) list"

text \<open>
  Modelled from the spec: \<^verbatim>\<open>model_dump()\<close> (library code), for the field
  declarations of \<^verbatim>\<open>models.py\<close>.
\<close>

definition dump_optional_str :: "string option \<Rightarrow> json" where
  "dump_optional_str v = (case v of None \<Rightarrow> JNull | Some s \<Rightarrow> JString s)"

definition TranscriptSegment_model_dump :: "TranscriptSegment \<Rightarrow> json" where
  "TranscriptSegment_model_dump seg =
     JObject
       [(''start_time'', JString (start_time seg)),
        (''end_time'', JString (end_time seg)),
        (''text'', JString (segment_text seg)),
        (''voice_id'', JInt (TranscriptSegment.voice_id seg)),
        (''emotion'', dump_optional_str (emotion seg)),
        (''tone'', dump_optional_str (tone seg)),
        (''energy_level'', dump_optional_str (energy_level seg)),
        (''speech_rate'', dump_optional_str (speech_rate seg))]"

definition Speaker_model_dump :: "Speaker \<Rightarrow> json" where
  "Speaker_model_dump sp =
     JObject
       [(''voice_id'', JInt (Speaker.voice_id sp)),
        (''name'', JString (name sp)),
        (''company'', JString (company sp)),
        (''position'', JString (position sp)),
        (''role_in_video'', JString (role_in_video sp))]"

definition TranslationTable_model_dump :: "TranslationTable \<Rightarrow> json" where
  "TranslationTable_model_dump row =
     JObject
       [(''line_number'', JInt (line_number row)),
        (''speaker'', JString (speaker row)),
        (''source_iso'', JString (source_iso row)),
        (''target_iso'', JString (target_iso row))]"

definition VideoTranscription_model_dump :: "VideoTranscription \<Rightarrow> json" where
  "VideoTranscription_model_dump t =
     JObject
       [(''script_segments'', JArray (map TranscriptSegment_model_dump (script_segments t))),
        (''speakers'', JArray (map Speaker_model_dump (speakers t))),
        (''translation_table'',
           JArray (map TranslationTable_model_dump (translation_table t))),
        (''video_duration'', dump_optional_str (video_duration t)),
        (''total_segments'', JInt (total_segments t)),
        (''total_speakers'', JInt (total_speakers t)),
        (''language_detected'', dump_optional_str (language_detected t))]"

text \<open>
  Python's limit on printing integers (\<^verbatim>\<open>sys.int_max_str_digits\<close>, 4300 by
  default): an integer can be written when it has at most that many decimal digits.
\<close>

definition int_max_str_digits :: nat where
  "int_max_str_digits = 4300"

definition int_printable :: "int \<Rightarrow> bool" where
  "int_printable i = (\<bar>i\<bar> < 10 ^ int_max_str_digits)"

fun json_printable :: "json \<Rightarrow> bool" where
  "json_printable JNull = True"
| "json_printable (JBool b) = True"
| "json_printable (JInt i) = int_printable i"
| "json_printable (JString s) = True"
| "json_printable (JArray items) = list_all json_printable items"
| "json_printable (JObject members) = list_all json_printable (map snd members)"

text \<open>
  Modelled from the spec: writing a tree as JSON text
  (\<^verbatim>\<open>json.dump(..., indent=2, ensure_ascii=False)\<close>, library code). A written
  text is represented by the value it denotes; writing fails with
  \<^verbatim>\<open>ValueError\<close> when the tree holds an integer that cannot be printed.
  \<open>export_json\<close> is the export statement of \<^verbatim>\<open>main.py\<close>.
\<close>

definition json_dump :: "json \<Rightarrow> exn + json" where
  "json_dump v =
     (if json_printable v then Inr v
      else Inl (ValueError ''Exceeds the limit (4300 digits) for integer string conversion''))"

definition export_json :: "VideoTranscription \<Rightarrow> exn + json" where
  "export_json t = json_dump (VideoTranscription_model_dump t)"

text \<open>
  The integers of an aggregate: the \<open>voice_id\<close> of every segment and speaker, the
  \<open>line_number\<close> of every translation entry, and the two counts.
\<close>

definition ints_printable :: "VideoTranscription \<Rightarrow> bool" where
  "ints_printable t =
     (list_all (\<lambda>g. int_printable (TranscriptSegment.voice_id g)) (script_segments t)
      \<and> list_all (\<lambda>s. int_printable (Speaker.voice_id s)) (speakers t)
      \<and> list_all (\<lambda>row. int_printable (line_number row)) (translation_table t)
      \<and> int_printable (total_segments t)
      \<and> int_printable (total_speakers t))"

text \<open>
  Modelled from the spec: parsing the external form back into the data model. No
  function of the repository does it, so the parsers below follow the spec's words
  (the field names and types of section 3) and the declarations of
  \<^verbatim>\<open>models.py\<close> for what is required, optional or defaulted.
\<close>

definition json_field :: "(string \<times> json) list \<Rightarrow> string \<Rightarrow> json option" where
  "json_field members key = map_of (rev members) key"

definition required_str :: "json option \<Rightarrow> string option" where
  "required_str v = (case v of Some (JString s) \<Rightarrow> Some s | _ \<Rightarrow> None)"

definition required_int :: "json option \<Rightarrow> int option" where
  "required_int v = (case v of Some (JInt i) \<Rightarrow> Some i | _ \<Rightarrow> None)"

definition optional_str :: "json option \<Rightarrow> string option option" where
  "optional_str v =
     (case v of None \<Rightarrow> Some None | Some JNull \<Rightarrow> Some None
      | Some (JString s) \<Rightarrow> Some (Some s) | _ \<Rightarrow> None)"

definition int_default :: "int \<Rightarrow> json option \<Rightarrow> int option" where
  "int_default d v = (case v of None \<Rightarrow> Some d | Some (JInt i) \<Rightarrow> Some i | _ \<Rightarrow> None)"

definition list_default :: "(json \<Rightarrow> 'a option) \<Rightarrow> json option \<Rightarrow> 'a list option" where
  "list_default parse_item v =
     (case v of None \<Rightarrow> Some [] | Some (JArray items) \<Rightarrow> those (map parse_item items)
      | _ \<Rightarrow> None)"

definition TranscriptSegment_parse :: "json \<Rightarrow> TranscriptSegment option" where
  "TranscriptSegment_parse j =
     (case j of
        JObject members \<Rightarrow>
          Option.bind (required_str (json_field members ''start_time'')) (\<lambda>v1.
          Option.bind (required_str (json_field members ''end_time'')) (\<lambda>v2.
          Option.bind (required_str (json_field members ''text'')) (\<lambda>v3.
          Option.bind (required_int (json_field members ''voice_id'')) (\<lambda>v4.
          Option.bind (optional_str (json_field members ''emotion'')) (\<lambda>v5.
          Option.bind (optional_str (json_field members ''tone'')) (\<lambda>v6.
          Option.bind (optional_str (json_field members ''energy_level'')) (\<lambda>v7.
          Option.bind (optional_str (json_field members ''speech_rate'')) (\<lambda>v8.
          Some \<lparr>start_time = v1, end_time = v2, segment_text = v3, voice_id = v4,
                emotion = v5, tone = v6, energy_level = v7, speech_rate = v8\<rparr>))))))))
      | _ \<Rightarrow> None)"

definition Speaker_parse :: "json \<Rightarrow> Speaker option" where
  "Speaker_parse j =
     (case j of
        JObject members \<Rightarrow>
          Option.bind (required_int (json_field members ''voice_id'')) (\<lambda>v1.
          Option.bind (required_str (json_field members ''name'')) (\<lambda>v2.
          Option.bind (required_str (json_field members ''company'')) (\<lambda>v3.
          Option.bind (required_str (json_field members ''position'')) (\<lambda>v4.
          Option.bind (required_str (json_field members ''role_in_video'')) (\<lambda>v5.
          Some \<lparr>voice_id = v1, name = v2, company = v3, position = v4,
                role_in_video = v5\<rparr>)))))
      | _ \<Rightarrow> None)"

definition TranslationTable_parse :: "json \<Rightarrow> TranslationTable option" where
  "TranslationTable_parse j =
     (case j of
        JObject members \<Rightarrow>
          Option.bind (required_int (json_field members ''line_number'')) (\<lambda>v1.
          Option.bind (required_str (json_field members ''speaker'')) (\<lambda>v2.
          Option.bind (required_str (json_field members ''source_iso'')) (\<lambda>v3.
          Option.bind (required_str (json_field members ''target_iso'')) (\<lambda>v4.
          Some \<lparr>line_number = v1, speaker = v2, source_iso = v3, target_iso = v4\<rparr>))))
      | _ \<Rightarrow> None)"

definition VideoTranscription_parse :: "json \<Rightarrow> VideoTranscription option" where
  "VideoTranscription_parse j =
     (case j of
        JObject members \<Rightarrow>
          Option.bind (list_default TranscriptSegment_parse
                         (json_field members ''script_segments'')) (\<lambda>v1.
          Option.bind (list_default Speaker_parse (json_field members ''speakers'')) (\<lambda>v2.
          Option.bind (list_default TranslationTable_parse
                         (json_field members ''translation_table'')) (\<lambda>v3.
          Option.bind (optional_str (json_field members ''video_duration'')) (\<lambda>v4.
          Option.bind (int_default 0 (json_field members ''total_segments'')) (\<lambda>v5.
          Option.bind (int_default 0 (json_field members ''total_speakers'')) (\<lambda>v6.
          Option.bind (optional_str (json_field members ''language_detected'')) (\<lambda>v7.
          Some \<lparr>script_segments = v1, speakers = v2, translation_table = v3,
                video_duration = v4, total_segments = v5, total_speakers = v6,
                language_detected = v7\<rparr>)))))))
      | _ \<Rightarrow> None)"

section \<open>Example values\<close>

text \<open>
  Concrete inputs at which the properties below are evaluated: segments and speakers
  with the optional fields unset, a transcription in which two speakers are called
  Jane, a transcription whose embedded counts are wrong, one with a voice number too
  long to print, the Google AI Studio backend, a YouTube request, and scripts for the
  remote model.
\<close>

definition example_segment :: "string \<Rightarrow> string \<Rightarrow> string \<Rightarrow> int \<Rightarrow> TranscriptSegment" where
  "example_segment s e t v =
     \<lparr>start_time = s, end_time = e, segment_text = t, voice_id = v,
      emotion = None, tone = None, energy_level = None, speech_rate = None\<rparr>"

definition example_speaker :: "int \<Rightarrow> string \<Rightarrow> Speaker" where
  "example_speaker v n =
     \<lparr>voice_id = v, name = n, company = ''?'', position = ''?'', role_in_video = ''?''\<rparr>"

definition jane_transcription :: VideoTranscription where
  "jane_transcription =
     \<lparr>script_segments =
        [example_segment ''00:01'' ''00:02'' ''Hello'' 1,
         example_segment ''00:02'' ''00:03'' ''Hi'' 2,
         example_segment ''00:03'' ''00:04'' ''Welcome'' 3,
         example_segment ''00:04'' ''00:05'' ''Thanks'' 1],
      speakers =
        [example_speaker 1 ''Jane'', example_speaker 2 ''Bob'', example_speaker 3 ''Jane''],
      translation_table = [], video_duration = None, total_segments = 4,
      total_speakers = 3, language_detected = None\<rparr>"

definition drifted_transcription :: VideoTranscription where
  "drifted_transcription =
     \<lparr>script_segments =
        [example_segment ''00:01'' ''00:02'' ''Hello'' 1,
         example_segment ''00:02'' ''00:03'' ''Hi'' 2,
         example_segment ''00:03'' ''00:04'' ''Welcome'' 1],
      speakers = [example_speaker 1 ''Ann''],
      translation_table = [], video_duration = None, total_segments = 99,
      total_speakers = 42, language_detected = None\<rparr>"

definition ai_studio :: Client where
  "ai_studio = \<lparr>vertexai = False\<rparr>"

definition unparsed_remote :: "GenerateContentRequest \<Rightarrow> nat \<Rightarrow> attempt_outcome" where
  "unparsed_remote request n = Returned \<lparr>parsed = ParsedNone\<rparr>"

definition rate_limited_error :: "nat \<Rightarrow> exn" where
  "rate_limited_error n =
     ClientError 429 (Some (if n = 7 then ''quota exhausted, giving up'' else ''quota exhausted''))"

definition always_rate_limited :: "GenerateContentRequest \<Rightarrow> nat \<Rightarrow> attempt_outcome" where
  "always_rate_limited request n = Raised (rate_limited_error n)"

definition flaky_then_unavailable :: "GenerateContentRequest \<Rightarrow> nat \<Rightarrow> attempt_outcome" where
  "flaky_then_unavailable request n =
     (if n = 1 then Raised (ClientError 429 None)
      else if n = 2 then Raised (ClientError 400 (Some ''Overloaded, please try again later.''))
      else Raised (ServerError 503 (Some ''unavailable'')))"

definition try_again_then_unparsed :: "GenerateContentRequest \<Rightarrow> nat \<Rightarrow> attempt_outcome" where
  "try_again_then_unparsed request n =
     (if n = 1 then Raised TryAgain else Returned \<lparr>parsed = ParsedNone\<rparr>)"

definition youtube_uri :: string where
  "youtube_uri = ''https://www.youtube.com/watch?v=abc123''"

definition youtube_part :: Part where
  "youtube_part =
     \<lparr>file_data =
        \<lparr>file_uri = ''https://www.youtube.com/watch?v=abc123'', mime_type = ''video/*''\<rparr>,
      video_metadata = \<lparr>start_offset = None, end_offset = None, fps = None\<rparr>\<rparr>"

definition youtube_request :: GenerateContentRequest where
  "youtube_request = sent_request None youtube_part (TranscriptionPrompt ''MM:SS'')"

definition oversized_voice_transcription :: VideoTranscription where
  "oversized_voice_transcription =
     \<lparr>script_segments =
        [example_segment ''00:01'' ''00:02'' ''Hello'' (10 ^ int_max_str_digits)],
      speakers = [], translation_table = [], video_duration = None, total_segments = 1,
      total_speakers = 0, language_detected = None\<rparr>"

text \<open>
  The sleep \<^verbatim>\<open>wait_incrementing\<close> computes depends on the attempt number only.
\<close>

definition wait_at :: "Retrying \<Rightarrow> nat \<Rightarrow> int" where
  "wait_at r k = wait_incrementing r \<lparr>outcome = None, attempt_number = k\<rparr>"

section \<open>Lookups by speaker name\<close>

lemma collect_segments_loop_filter:
  "collect_segments_loop gs sp acc =
     acc @ filter (\<lambda>g. TranscriptSegment.voice_id g = Speaker.voice_id sp) gs"
  by (induction gs arbitrary: acc) simp_all

lemma find_speaker_loop_first:
  "\<lbrakk>\<And>s. s \<in> set before \<Longrightarrow> name s \<noteq> n; name sp = n\<rbrakk>
   \<Longrightarrow> find_speaker_loop (before @ sp # after) n = Some sp"
  by (induction before) simp_all

lemma find_speaker_loop_none:
  "(\<And>s. s \<in> set sps \<Longrightarrow> name s \<noteq> n) \<Longrightarrow> find_speaker_loop sps n = None"
  by (induction sps) simp_all

lemma get_segments_by_speaker_subseq:
  "subseq (get_segments_by_speaker self n) (script_segments self)"
  by (simp add: get_segments_by_speaker_def collect_segments_loop_filter
      split: option.split)

text \<open>
  C8. The speaker is the first one in \<open>speakers\<close> whose name is exactly the given one
  (no speaker before it has that name), and the result is exactly the segments, in
  order, whose \<open>voice_id\<close> is that speaker's; later speakers of the same name play no
  part.
\<close>

theorem get_segments_by_speaker_first_match:
  assumes "speakers self = before @ sp # after"
    and "\<forall>s \<in> set before. name s \<noteq> n"
    and "name sp = n"
  shows "get_segments_by_speaker self n =
           filter (\<lambda>g. TranscriptSegment.voice_id g = Speaker.voice_id sp)
             (script_segments self)"
proof -
  from assms(2,3) have "find_speaker_loop (before @ sp # after) n = Some sp"
    by (intro find_speaker_loop_first) auto
  with assms(1) show ?thesis
    by (simp add: get_segments_by_speaker_def collect_segments_loop_filter)
qed

text \<open>
  With two speakers called Jane, of voice 1 and voice 3, only the segments of voice 1
  are returned.
\<close>

theorem get_segments_by_speaker_first_match_witness:
  "speakers jane_transcription =
     [] @ example_speaker 1 ''Jane'' # [example_speaker 2 ''Bob'', example_speaker 3 ''Jane'']
   \<and> name (example_speaker 1 ''Jane'') = ''Jane''
   \<and> name (example_speaker 3 ''Jane'') = ''Jane''
   \<and> get_segments_by_speaker jane_transcription ''Jane'' =
       [example_segment ''00:01'' ''00:02'' ''Hello'' 1,
        example_segment ''00:04'' ''00:05'' ''Thanks'' 1]"
  using get_segments_by_speaker_first_match
    [of jane_transcription "[]" "example_speaker 1 ''Jane''"
        "[example_speaker 2 ''Bob'', example_speaker 3 ''Jane'']" "''Jane''"]
  by (simp add: jane_transcription_def example_segment_def example_speaker_def)

text \<open>
  C10. When no speaker has the given name the result is the empty list (a value, not
  an error, and no segment is matched directly), and in every case the result is a
  subsequence of \<open>script_segments\<close>: the segments keep their relative order.
\<close>

theorem get_segments_by_speaker_no_match_and_order:
  "((\<forall>s \<in> set (speakers self). name s \<noteq> n) \<longrightarrow> get_segments_by_speaker self n = [])
   \<and> subseq (get_segments_by_speaker self n) (script_segments self)"
proof
  show "(\<forall>s \<in> set (speakers self). name s \<noteq> n) \<longrightarrow> get_segments_by_speaker self n = []"
  proof
    assume "\<forall>s \<in> set (speakers self). name s \<noteq> n"
    then have "find_speaker_loop (speakers self) n = None"
      by (intro find_speaker_loop_none) auto
    then show "get_segments_by_speaker self n = []"
      by (simp add: get_segments_by_speaker_def)
  qed
  show "subseq (get_segments_by_speaker self n) (script_segments self)"
    by (rule get_segments_by_speaker_subseq)
qed

theorem get_segments_by_speaker_no_match_and_order_witness:
  "''Alice'' \<notin> set (map name (speakers jane_transcription))
   \<and> get_segments_by_speaker jane_transcription ''Alice'' = []
   \<and> subseq (get_segments_by_speaker jane_transcription ''Alice'')
        (script_segments jane_transcription)"
  using get_segments_by_speaker_no_match_and_order [of jane_transcription "''Alice''"]
  by (simp add: jane_transcription_def example_segment_def example_speaker_def)

section \<open>Round trip through JSON\<close>

lemma optional_str_dump: "optional_str (Some (dump_optional_str v)) = Some v"
  by (cases v) (simp_all add: optional_str_def dump_optional_str_def)

lemma those_map_roundtrip:
  "(\<And>x. parse_item (dump_item x) = Some x)
   \<Longrightarrow> those (map (parse_item \<circ> dump_item) xs) = Some xs"
  by (induction xs) simp_all

lemma TranscriptSegment_roundtrip:
  "TranscriptSegment_parse (TranscriptSegment_model_dump seg) = Some seg"
  by (cases seg)
     (simp add: TranscriptSegment_parse_def TranscriptSegment_model_dump_def json_field_def
        required_str_def required_int_def optional_str_dump)

lemma Speaker_roundtrip: "Speaker_parse (Speaker_model_dump sp) = Some sp"
  by (cases sp)
     (simp add: Speaker_parse_def Speaker_model_dump_def json_field_def
        required_str_def required_int_def)

lemma TranslationTable_roundtrip:
  "TranslationTable_parse (TranslationTable_model_dump row) = Some row"
  by (cases row)
     (simp add: TranslationTable_parse_def TranslationTable_model_dump_def json_field_def
        required_str_def required_int_def)

lemma VideoTranscription_parse_model_dump:
  "VideoTranscription_parse (VideoTranscription_model_dump t) = Some t"
  by (cases t)
     (simp add: VideoTranscription_parse_def VideoTranscription_model_dump_def json_field_def
        list_default_def int_default_def optional_str_dump those_map_roundtrip
        TranscriptSegment_roundtrip Speaker_roundtrip TranslationTable_roundtrip)

lemma json_printable_optional_str: "json_printable (dump_optional_str v)"
  by (cases v) (simp_all add: dump_optional_str_def)

lemma json_printable_model_dump:
  "json_printable (VideoTranscription_model_dump t) = ints_printable t"
  by (simp add: VideoTranscription_model_dump_def ints_printable_def
      TranscriptSegment_model_dump_def Speaker_model_dump_def TranslationTable_model_dump_def
      json_printable_optional_str list_all_iff)

lemma export_json_cases:
  "export_json t =
     (if ints_printable t then Inr (VideoTranscription_model_dump t)
      else Inl (ValueError ''Exceeds the limit (4300 digits) for integer string conversion''))"
  by (simp add: export_json_def json_dump_def json_printable_model_dump)

lemma int_printable_small: "\<bar>i\<bar> < 10 \<Longrightarrow> int_printable i"
proof -
  assume small: "\<bar>i\<bar> < 10"
  have "(10::int) ^ 1 \<le> 10 ^ int_max_str_digits"
    by (rule power_increasing) (simp_all add: int_max_str_digits_def)
  with small show ?thesis by (simp add: int_printable_def)
qed

lemma int_printable_limit: "\<not> int_printable (10 ^ int_max_str_digits)"
  by (simp add: int_printable_def)

text \<open>
  C9, as the program has it. An aggregate all of whose integers have at most 4300
  digits is written, and parsing what was written gives the aggregate back: the same
  \<open>total_segments\<close> and \<open>total_speakers\<close> (passed through, not recomputed) and the
  same fields in every segment, speaker and translation entry. An aggregate with a
  longer integer is not written at all: serializing raises \<^verbatim>\<open>ValueError\<close>.
\<close>

theorem export_json_roundtrip:
  "(ints_printable t \<longrightarrow>
      (\<exists>j. export_json t = Inr j \<and> VideoTranscription_parse j = Some t))
   \<and> (\<not> ints_printable t \<longrightarrow> (\<exists>msg. export_json t = Inl (ValueError msg)))"
  by (simp add: export_json_cases VideoTranscription_parse_model_dump)

theorem export_json_roundtrip_witness:
  "ints_printable jane_transcription
   \<and> export_json jane_transcription = Inr (VideoTranscription_model_dump jane_transcription)
   \<and> VideoTranscription_parse (VideoTranscription_model_dump jane_transcription) =
       Some jane_transcription"
proof -
  have printable: "ints_printable jane_transcription"
    by (simp add: ints_printable_def jane_transcription_def example_segment_def
        example_speaker_def int_printable_small)
  with export_json_roundtrip [of jane_transcription] show ?thesis
    by (auto simp: export_json_cases)
qed

text \<open>
  C9, as the claim states it, fails: an aggregate with one segment whose \<open>voice_id\<close>
  is \<open>10 ^ 4300\<close> (4301 digits) cannot be serialized, so there is no JSON to parse
  back.
\<close>

theorem oversized_voice_id_not_exported:
  "export_json oversized_voice_transcription =
     Inl (ValueError ''Exceeds the limit (4300 digits) for integer string conversion'')"
  by (simp add: export_json_cases ints_printable_def oversized_voice_transcription_def
      example_segment_def int_printable_limit)

section \<open>Request builder\<close>

lemma rewritten_gs_not_youtube:
  "\<not> prefix ''https://www.youtube.com/watch?v='' (''https://storage.googleapis.com/'' @ rest)"
  by (simp add: prefix_def)

lemma fps_rejected_raises:
  "fps_rejected f \<Longrightarrow>
   transcribe_video client remote uri so eo f m p =
     \<lparr>result = Inl (ValueError ''FPS must be between 0.1 and 24.0''), calls = 0, sleeps = []\<rparr>"
  by (simp add: transcribe_video_def)

lemma fps_rejected_nonzero:
  "x \<noteq> 0 \<Longrightarrow> fps_rejected (Some (Finite x)) = (x < MIN_FPS \<or> x > MAX_FPS)"
  by (simp add: fps_rejected_def)

lemma fps_rejected_None: "\<not> fps_rejected None"
  by (simp add: fps_rejected_def)

lemma get_timecode_format_iff:
  "get_timecode_format d =
     (if (\<exists>x. d = Some x \<and> x \<ge> timedelta_hours 1) then EXTENDED_TIMECODE_FORMAT
      else DEFAULT_TIMECODE_FORMAT)"
  by (auto simp: get_timecode_format_def timedelta_truthy_def timedelta_hours_def
      split: option.splits)

text \<open>
  C1, as the code has it. On the Google AI Studio backend \<open>get_video_part\<close> returns
  no part exactly when the URI, after the \<^verbatim>\<open>gs://\<close> rewriting, does not start with
  \<^verbatim>\<open>https://www.youtube.com/watch?v=\<close>. A \<^verbatim>\<open>gs://\<close> URI is therefore always
  refused, rewritten or not. When the part is refused and the frame rate has passed
  its check, \<open>transcribe_video\<close> returns the default (empty) transcription, raises
  nothing and makes no remote call.
\<close>

theorem get_video_part_refuses_non_youtube:
  assumes "\<not> vertexai client"
  shows "((get_video_part client uri so eo f = None) =
            (\<not> prefix ''https://www.youtube.com/watch?v=''
                 (rewrite_cloud_storage_uri client uri)))
     \<and> (prefix ''gs://'' uri \<longrightarrow> get_video_part client uri so eo f = None)
     \<and> (get_video_part client uri so eo f = None \<and> \<not> fps_rejected f \<longrightarrow>
          transcribe_video client remote uri so eo f m p =
            \<lparr>result = Inr VideoTranscription_default, calls = 0, sleeps = []\<rparr>)"
proof (intro conjI impI)
  show "(get_video_part client uri so eo f = None) =
          (\<not> prefix ''https://www.youtube.com/watch?v=''
               (rewrite_cloud_storage_uri client uri))"
    using assms by (simp add: get_video_part_def Let_def)
  show "get_video_part client uri so eo f = None" if "prefix ''gs://'' uri"
    using assms that rewritten_gs_not_youtube
    by (simp add: get_video_part_def Let_def rewrite_cloud_storage_uri_def)
  show "transcribe_video client remote uri so eo f m p =
          \<lparr>result = Inr VideoTranscription_default, calls = 0, sleeps = []\<rparr>"
    if "get_video_part client uri so eo f = None \<and> \<not> fps_rejected f"
    using that by (simp add: transcribe_video_def)
qed

theorem get_video_part_refuses_non_youtube_witness:
  "\<not> vertexai ai_studio
   \<and> prefix ''gs://'' ''gs://bucket/video.mp4''
   \<and> rewrite_cloud_storage_uri ai_studio ''gs://bucket/video.mp4'' =
       ''https://storage.googleapis.com/bucket/video.mp4''
   \<and> get_video_part ai_studio ''gs://bucket/video.mp4'' None None (Some (Finite 1)) = None
   \<and> \<not> fps_rejected (Some (Finite 1))
   \<and> transcribe_video ai_studio unparsed_remote ''gs://bucket/video.mp4'' None None
        (Some (Finite 1)) None None =
       \<lparr>result = Inr VideoTranscription_default, calls = 0, sleeps = []\<rparr>"
  using get_video_part_refuses_non_youtube
    [of ai_studio "''gs://bucket/video.mp4''" None None "Some (Finite 1)" unparsed_remote
        None None]
  by (simp add: ai_studio_def fps_rejected_def MIN_FPS_def MAX_FPS_def
      rewrite_cloud_storage_uri_def removeprefix_def)

text \<open>
  C1, as the claim states it, fails: on the Google AI Studio backend the direct HTTPS
  URL \<^verbatim>\<open>https://example.com/video.mp4\<close> is refused although it is already an
  HTTPS URL.
\<close>

theorem direct_https_url_refused:
  "\<not> ((get_video_part \<lparr>vertexai = False\<rparr> ''https://example.com/video.mp4'' None None None
          = None)
       = (\<not> prefix ''https://www.youtube.com/watch?v=''
              (rewrite_cloud_storage_uri \<lparr>vertexai = False\<rparr> ''https://example.com/video.mp4'')
          \<and> \<not> prefix ''https://''
              (rewrite_cloud_storage_uri \<lparr>vertexai = False\<rparr> ''https://example.com/video.mp4'')))"
  by (simp add: get_video_part_def rewrite_cloud_storage_uri_def Let_def)

section \<open>Retrying invoker\<close>

text \<open>
  The shape of every run of the loop started at attempt \<open>n\<close> (\<open>retry_loop_shape\<close>):
  it ends at an attempt between \<open>n\<close> and the stop bound, and it has slept once after
  each attempt but the last. As long as an attempt is retried and the bound is not
  reached, the loop moves on to the next attempt (\<open>retry_loop_advance\<close>).
\<close>

declare retry_loop.simps [simp del]

lemma str_in_sublist: "str_in sub s = sublist sub s"
  by (induction s) (auto simp: sublist_Cons_right)

lemma get_retrier_fields:
  "retry get_retrier = should_retry_request"
  "max_attempt_number get_retrier = 7"
  "reraise get_retrier = True"
  by (simp_all add: get_retrier_def)

lemma wait_incrementing_wait_at:
  "wait_incrementing r \<lparr>outcome = out, attempt_number = k\<rparr> = wait_at r k"
  by (simp add: wait_at_def wait_incrementing_def)

lemma wait_at_get_retrier: "k \<le> 7 \<Longrightarrow> wait_at get_retrier k = 10 + (int k - 1) * 1"
  by (cases "k = 0") (auto simp: wait_at_def wait_incrementing_def get_retrier_def MAX_WAIT_def)

lemma retry_loop_shape:
  "n \<le> calls (retry_loop r gc n sl)
   \<and> calls (retry_loop r gc n sl) \<le> max n (max_attempt_number r)
   \<and> sleeps (retry_loop r gc n sl) = sl @ map (wait_at r) [n..<calls (retry_loop r gc n sl)]"
proof (induction r gc n sl rule: retry_loop.induct)
  case (1 r gc n sl)
  let ?st = "\<lparr>outcome = Some (gc n), attempt_number = n\<rparr>"
  show ?case
  proof (cases "(is_explicit_retry (gc n) \<or> retry r ?st) \<and> \<not> stop_after_attempt r ?st")
    case False
    then show ?thesis
      by (auto simp: retry_loop.simps [of r gc n sl] Let_def)
  next
    case True
    then have unfold: "retry_loop r gc n sl = retry_loop r gc (Suc n) (sl @ [wait_at r n])"
      by (auto simp: retry_loop.simps [of r gc n sl] Let_def wait_incrementing_wait_at)
    from True have lt: "n < max_attempt_number r"
      by (simp add: stop_after_attempt_def)
    from True have IH:
      "Suc n \<le> calls (retry_loop r gc (Suc n) (sl @ [wait_at r n]))
       \<and> calls (retry_loop r gc (Suc n) (sl @ [wait_at r n])) \<le> max (Suc n) (max_attempt_number r)
       \<and> sleeps (retry_loop r gc (Suc n) (sl @ [wait_at r n])) =
           (sl @ [wait_at r n]) @
           map (wait_at r) [Suc n..<calls (retry_loop r gc (Suc n) (sl @ [wait_at r n]))]"
      using "1.IH" [OF refl refl] by (simp add: wait_incrementing_wait_at)
    show ?thesis
      unfolding unfold using IH lt by (auto simp: upt_conv_Cons)
  qed
qed

lemma retry_loop_advance:
  assumes "n \<le> k"
    and "\<And>j. n \<le> j \<Longrightarrow> j < k \<Longrightarrow>
           (is_explicit_retry (gc j) \<or> retry r \<lparr>outcome = Some (gc j), attempt_number = j\<rparr>)
           \<and> j < max_attempt_number r"
  shows "retry_loop r gc n sl = retry_loop r gc k (sl @ map (wait_at r) [n..<k])"
  using assms
proof (induction k rule: dec_induct)
  case base
  then show ?case by simp
next
  case (step m)
  then have "retry_loop r gc n sl = retry_loop r gc m (sl @ map (wait_at r) [n..<m])"
    by simp
  also have "\<dots> = retry_loop r gc (Suc m) ((sl @ map (wait_at r) [n..<m]) @ [wait_at r m])"
    using step.prems [of m] step.hyps
    by (auto simp: retry_loop.simps [of r gc m] Let_def stop_after_attempt_def
        wait_incrementing_wait_at)
  finally show ?case using step.hyps by simp
qed

lemma call_once:
  "\<not> is_explicit_retry (gc 1) \<Longrightarrow>
   \<not> should_retry_request \<lparr>outcome = Some (gc 1), attempt_number = 1\<rparr> \<Longrightarrow>
   call_with_retries get_retrier gc =
     \<lparr>result = (case gc 1 of Returned response \<Rightarrow> Inr response | Raised err \<Rightarrow> Inl err),
      calls = 1, sleeps = []\<rparr>"
  unfolding call_with_retries_def
  by (subst retry_loop.simps) (simp add: Let_def get_retrier_fields)

lemma should_retry_request_Raised:
  "should_retry_request \<lparr>outcome = Some (Raised err), attempt_number = n\<rparr> =
     (\<exists>code message. err = ClientError code message \<and>
        (code = 429 \<or>
         (code = 400 \<and> (\<exists>m. message = Some m \<and> sublist '' try again '' m))))"
  by (cases err) (auto simp: should_retry_request_def str_in_sublist split: option.splits)

lemma transcribe_video_calls:
  "calls (transcribe_video client remote uri so eo f m p) \<le> 7"
proof -
  have "calls (call_with_retries get_retrier gc) \<le> 7" for gc
    using retry_loop_shape [of 1 get_retrier gc "[]"]
    by (simp add: call_with_retries_def get_retrier_fields)
  then show ?thesis
    by (simp add: transcribe_video_def Let_def split: option.split sum.split)
qed

text \<open>
  Once the frame rate is accepted, the part exists and the prompt is built,
  \<open>transcribe_video\<close> is the invoker run on the request, followed by the
  interpretation of the response.
\<close>

lemma transcribe_video_invokes:
  assumes "\<not> fps_rejected f"
    and "get_video_part client uri so eo f = Some part"
    and "select_prompt p so eo = Inr pr"
  shows "transcribe_video client remote uri so eo f m p =
           \<lparr>result =
              (case result (call_with_retries get_retrier (remote (sent_request m part pr))) of
                 Inl err \<Rightarrow> Inl err
               | Inr response \<Rightarrow> Inr (parse_response response)),
            calls = calls (call_with_retries get_retrier (remote (sent_request m part pr))),
            sleeps = sleeps (call_with_retries get_retrier (remote (sent_request m part pr)))\<rparr>"
  using assms by (simp add: transcribe_video_def sent_request_def Let_def)

text \<open>
  The invoker, when attempts 1 to \<open>k - 1\<close> were retried and attempt \<open>k\<close> raises.
\<close>

lemma invoker_at_attempt:
  assumes k: "1 \<le> k" "k \<le> 7"
    and before: "\<forall>j \<in> {1..<k}. is_explicit_retry (gc j) \<or>
                   should_retry_request \<lparr>outcome = Some (gc j), attempt_number = j\<rparr>"
    and at: "gc k = Raised err"
  shows "if err = TryAgain \<or>
            should_retry_request \<lparr>outcome = Some (Raised err), attempt_number = k\<rparr>
         then (k < 7 \<longrightarrow> k < calls (call_with_retries get_retrier gc))
              \<and> (k = 7 \<longrightarrow> result (call_with_retries get_retrier gc) = Inl err
                            \<and> calls (call_with_retries get_retrier gc) = 7)
         else result (call_with_retries get_retrier gc) = Inl err
              \<and> calls (call_with_retries get_retrier gc) = k"
proof -
  let ?run = "call_with_retries get_retrier gc"
  have adv: "?run = retry_loop get_retrier gc k (map (wait_at get_retrier) [1..<k])"
    unfolding call_with_retries_def
    using retry_loop_advance [of 1 k gc get_retrier "[]"] k before
    by (auto simp: get_retrier_fields)
  show ?thesis
  proof (cases "err = TryAgain \<or>
            should_retry_request \<lparr>outcome = Some (Raised err), attempt_number = k\<rparr>")
    case False
    with at adv show ?thesis
      by (simp add: retry_loop.simps [of get_retrier gc k] Let_def get_retrier_fields
          is_explicit_retry_def)
  next
    case True
    have more: "k < calls ?run" if "k < 7"
    proof -
      have "retry_loop get_retrier gc k (map (wait_at get_retrier) [1..<k]) =
              retry_loop get_retrier gc (Suc k)
                (map (wait_at get_retrier) [1..<k] @ [wait_at get_retrier k])"
        using at True that
        by (auto simp: retry_loop.simps [of get_retrier gc k] Let_def get_retrier_fields
            stop_after_attempt_def wait_incrementing_wait_at is_explicit_retry_def)
      with adv have "?run = retry_loop get_retrier gc (Suc k)
              (map (wait_at get_retrier) [1..<k] @ [wait_at get_retrier k])"
        by simp
      then show ?thesis
        using retry_loop_shape [of "Suc k" get_retrier gc
            "map (wait_at get_retrier) [1..<k] @ [wait_at get_retrier k]"]
        by simp
    qed
    have last: "result ?run = Inl err \<and> calls ?run = 7" if "k = 7"
      using at True that adv
      by (auto simp: retry_loop.simps [of get_retrier gc 7] Let_def get_retrier_fields
          stop_after_attempt_def is_explicit_retry_def)
    from True more last show ?thesis by simp
  qed
qed


lemma youtube_request_reaches_invoker:
  "\<not> fps_rejected None"
  "get_video_part ai_studio youtube_uri None None None = Some youtube_part"
  "select_prompt None None None = Inr (TranscriptionPrompt ''MM:SS'')"
  by (simp_all add: fps_rejected_def get_video_part_def rewrite_cloud_storage_uri_def
      ai_studio_def youtube_uri_def youtube_part_def Let_def select_prompt_def
      window_duration_def get_timecode_format_def get_transcription_prompt_def
      DEFAULT_TIMECODE_FORMAT_def)

text \<open>
  C3, as the code has it. The predicate says yes to an exception exactly when it is a
  \<open>ClientError\<close> whose code is 429, or whose code is 400 and whose message
  contains \<^verbatim>\<open>" try again "\<close>. In \<open>transcribe_video\<close>, once the request has reached
  the remote call: when attempts 1 to \<open>k - 1\<close> were retried and attempt \<open>k\<close> (at
  most the seventh) raises \<open>err\<close>, then \<open>err\<close> is retried (another call follows,
  unless \<open>k\<close> is the last attempt) if the predicate says yes or \<open>err\<close> is the retry
  library's own \<^verbatim>\<open>TryAgain\<close>; every other \<open>err\<close> comes out of
  \<open>transcribe_video\<close> at once, as it is, after exactly \<open>k\<close> calls.
\<close>

theorem transcribe_video_retry_policy:
  assumes "\<not> fps_rejected f"
    and "get_video_part client uri so eo f = Some part"
    and "select_prompt p so eo = Inr pr"
  shows
   "(should_retry_request \<lparr>outcome = Some (Raised err), attempt_number = n\<rparr> =
      (\<exists>code message. err = ClientError code message \<and>
         (code = 429 \<or>
          (code = 400 \<and> (\<exists>m. message = Some m \<and> sublist '' try again '' m)))))
    \<and> (1 \<le> k \<and> k \<le> 7
        \<and> (\<forall>j \<in> {1..<k}.
              is_explicit_retry (remote (sent_request m part pr) j) \<or>
              should_retry_request
                \<lparr>outcome = Some (remote (sent_request m part pr) j), attempt_number = j\<rparr>)
        \<and> remote (sent_request m part pr) k = Raised err
      \<longrightarrow> (if err = TryAgain \<or>
               should_retry_request \<lparr>outcome = Some (Raised err), attempt_number = k\<rparr>
           then k < 7 \<longrightarrow> k < calls (transcribe_video client remote uri so eo f m p)
           else result (transcribe_video client remote uri so eo f m p) = Inl err
                \<and> calls (transcribe_video client remote uri so eo f m p) = k))"
proof (intro conjI impI)
  show "should_retry_request \<lparr>outcome = Some (Raised err), attempt_number = n\<rparr> =
      (\<exists>code message. err = ClientError code message \<and>
         (code = 429 \<or>
          (code = 400 \<and> (\<exists>m. message = Some m \<and> sublist '' try again '' m))))"
    by (rule should_retry_request_Raised)
next
  let ?gc = "remote (sent_request m part pr)"
  assume a: "1 \<le> k \<and> k \<le> 7
        \<and> (\<forall>j \<in> {1..<k}.
              is_explicit_retry (?gc j) \<or>
              should_retry_request \<lparr>outcome = Some (?gc j), attempt_number = j\<rparr>)
        \<and> ?gc k = Raised err"
  have tv: "result (transcribe_video client remote uri so eo f m p) =
              (case result (call_with_retries get_retrier ?gc) of
                 Inl e \<Rightarrow> Inl e | Inr response \<Rightarrow> Inr (parse_response response))"
    "calls (transcribe_video client remote uri so eo f m p) =
       calls (call_with_retries get_retrier ?gc)"
    by (simp_all add: transcribe_video_invokes [OF assms])
  from a have "if err = TryAgain \<or>
            should_retry_request \<lparr>outcome = Some (Raised err), attempt_number = k\<rparr>
         then (k < 7 \<longrightarrow> k < calls (call_with_retries get_retrier ?gc))
              \<and> (k = 7 \<longrightarrow> result (call_with_retries get_retrier ?gc) = Inl err
                            \<and> calls (call_with_retries get_retrier ?gc) = 7)
         else result (call_with_retries get_retrier ?gc) = Inl err
              \<and> calls (call_with_retries get_retrier ?gc) = k"
    by (intro invoker_at_attempt) simp_all
  then show "if err = TryAgain \<or>
               should_retry_request \<lparr>outcome = Some (Raised err), attempt_number = k\<rparr>
           then k < 7 \<longrightarrow> k < calls (transcribe_video client remote uri so eo f m p)
           else result (transcribe_video client remote uri so eo f m p) = Inl err
                \<and> calls (transcribe_video client remote uri so eo f m p) = k"
    by (simp add: tv split: if_splits)
qed

text \<open>
  A rate limit, then a 400 asking to try again, then a server error: the first two are
  retried, the third comes out of \<open>transcribe_video\<close> as it is after three calls.
\<close>

theorem transcribe_video_retry_policy_witness:
  "\<not> fps_rejected None
   \<and> get_video_part ai_studio youtube_uri None None None = Some youtube_part
   \<and> select_prompt None None None = Inr (TranscriptionPrompt ''MM:SS'')
   \<and> should_retry_request
       \<lparr>outcome = Some (flaky_then_unavailable youtube_request 1), attempt_number = 1\<rparr>
   \<and> should_retry_request
       \<lparr>outcome = Some (flaky_then_unavailable youtube_request 2), attempt_number = 2\<rparr>
   \<and> flaky_then_unavailable youtube_request 3 = Raised (ServerError 503 (Some ''unavailable''))
   \<and> \<not> should_retry_request
          \<lparr>outcome = Some (Raised (ServerError 503 (Some ''unavailable''))), attempt_number = 3\<rparr>
   \<and> result (transcribe_video ai_studio flaky_then_unavailable youtube_uri
               None None None None None) =
        Inl (ServerError 503 (Some ''unavailable''))
   \<and> calls (transcribe_video ai_studio flaky_then_unavailable youtube_uri
               None None None None None) = 3"
proof -
  have retried: "\<forall>j \<in> {1..<3}.
      is_explicit_retry (flaky_then_unavailable req j) \<or>
      should_retry_request
        \<lparr>outcome = Some (flaky_then_unavailable req j), attempt_number = j\<rparr>" for req
    by (auto simp: flaky_then_unavailable_def should_retry_request_def)
  have third: "flaky_then_unavailable req 3 = Raised (ServerError 503 (Some ''unavailable''))"
    for req
    by (simp add: flaky_then_unavailable_def)
  have no: "\<not> should_retry_request
      \<lparr>outcome = Some (Raised (ServerError 503 (Some ''unavailable''))), attempt_number = 3\<rparr>"
    by (simp add: should_retry_request_def)
  show ?thesis
    using transcribe_video_retry_policy [OF youtube_request_reaches_invoker,
        of "ServerError 503 (Some ''unavailable'')" 3 3 flaky_then_unavailable None]
      retried third no youtube_request_reaches_invoker
    by (simp add: flaky_then_unavailable_def should_retry_request_def)
qed

text \<open>
  C3, as the claim states it, fails: \<^verbatim>\<open>TryAgain\<close> is not a \<open>ClientError\<close> and the
  predicate says no to it, yet when the first attempt raises it a second call is made
  and its response is returned.
\<close>

theorem try_again_is_retried:
  "\<not> should_retry_request \<lparr>outcome = Some (Raised TryAgain), attempt_number = 1\<rparr>
   \<and> try_again_then_unparsed youtube_request 1 = Raised TryAgain
   \<and> transcribe_video ai_studio try_again_then_unparsed youtube_uri
        None None None None None =
      \<lparr>result = Inr VideoTranscription_default, calls = 2, sleeps = [10]\<rparr>"
proof -
  have run: "call_with_retries get_retrier (try_again_then_unparsed req) =
               \<lparr>result = Inr \<lparr>parsed = ParsedNone\<rparr>, calls = 2, sleeps = [10]\<rparr>" for req
    unfolding call_with_retries_def
    apply (subst retry_loop.simps)
    apply (simp add: Let_def get_retrier_fields try_again_then_unparsed_def
        is_explicit_retry_def stop_after_attempt_def wait_incrementing_wait_at
        wait_at_get_retrier)
    apply (subst retry_loop.simps)
    apply (simp add: Let_def get_retrier_fields try_again_then_unparsed_def
        is_explicit_retry_def should_retry_request_def)
    done
  show ?thesis
    by (simp add: transcribe_video_invokes [OF youtube_request_reaches_invoker] run
        parse_response_def should_retry_request_def try_again_then_unparsed_def)
qed

text \<open>
  C4. Once the request has reached the remote call, \<open>transcribe_video\<close> makes
  between one and seven calls, one after the other, and the sleep taken after the
  \<open>k\<close>-th attempt (before the \<open>k\<close>-th retry) is \<open>10 + (k - 1) * 1\<close> seconds. When
  all seven attempts raise errors that are retried, the error of the seventh attempt
  itself comes out of \<open>transcribe_video\<close>, not a wrapper, after exactly seven calls
  and sleeps of 10 to 15 seconds. For every input whatever, \<open>transcribe_video\<close>
  makes at most seven calls.
\<close>

theorem transcribe_video_attempts_and_backoff:
  assumes "\<not> fps_rejected f"
    and "get_video_part client uri so eo f = Some part"
    and "select_prompt p so eo = Inr pr"
  shows
   "1 \<le> calls (transcribe_video client remote uri so eo f m p)
    \<and> calls (transcribe_video client remote uri so eo f m p) \<le> 7
    \<and> sleeps (transcribe_video client remote uri so eo f m p) =
        map (\<lambda>k. 10 + (int k - 1) * 1)
          [1..<calls (transcribe_video client remote uri so eo f m p)]
    \<and> ((\<forall>k \<in> {1..7}.
           remote (sent_request m part pr) k = Raised (errs k) \<and>
           (errs k = TryAgain \<or>
            should_retry_request \<lparr>outcome = Some (Raised (errs k)), attempt_number = k\<rparr>))
        \<longrightarrow> result (transcribe_video client remote uri so eo f m p) = Inl (errs 7)
            \<and> calls (transcribe_video client remote uri so eo f m p) = 7
            \<and> sleeps (transcribe_video client remote uri so eo f m p) =
                [10, 11, 12, 13, 14, 15])
    \<and> calls (transcribe_video client2 remote2 uri2 so2 eo2 f2 m2 p2) \<le> 7"
proof -
  let ?gc = "remote (sent_request m part pr)"
  let ?run = "call_with_retries get_retrier ?gc"
  let ?tv = "transcribe_video client remote uri so eo f m p"
  have tv: "result ?tv =
              (case result ?run of
                 Inl e \<Rightarrow> Inl e | Inr response \<Rightarrow> Inr (parse_response response))"
    "calls ?tv = calls ?run" "sleeps ?tv = sleeps ?run"
    by (simp_all add: transcribe_video_invokes [OF assms])
  have shape: "1 \<le> calls ?run \<and> calls ?run \<le> 7
               \<and> sleeps ?run = map (wait_at get_retrier) [1..<calls ?run]"
    using retry_loop_shape [of 1 get_retrier ?gc "[]"]
    by (simp add: call_with_retries_def get_retrier_fields)
  then have backoff: "sleeps ?run = map (\<lambda>k. 10 + (int k - 1) * 1) [1..<calls ?run]"
    by (simp add: wait_at_get_retrier)
  have exhausted:
    "result ?run = Inl (errs 7) \<and> calls ?run = 7 \<and> sleeps ?run = [10, 11, 12, 13, 14, 15]"
    if all: "\<forall>k \<in> {1..7}. ?gc k = Raised (errs k) \<and>
               (errs k = TryAgain \<or>
                should_retry_request \<lparr>outcome = Some (Raised (errs k)), attempt_number = k\<rparr>)"
  proof -
    have "\<forall>j \<in> {1..<7}. is_explicit_retry (?gc j) \<or>
            should_retry_request \<lparr>outcome = Some (?gc j), attempt_number = j\<rparr>"
      using all by (auto simp: is_explicit_retry_def)
    moreover have "?gc 7 = Raised (errs 7)"
      and "errs 7 = TryAgain \<or>
           should_retry_request \<lparr>outcome = Some (Raised (errs 7)), attempt_number = 7\<rparr>"
      using all by auto
    ultimately have "result ?run = Inl (errs 7) \<and> calls ?run = 7"
      using invoker_at_attempt [of 7 ?gc "errs 7"] by auto
    moreover from this shape have "sleeps ?run = [10, 11, 12, 13, 14, 15]"
      by (simp add: upt_conv_Cons wait_at_get_retrier)
    ultimately show ?thesis by simp
  qed
  from shape backoff exhausted transcribe_video_calls [of client2 remote2 uri2 so2 eo2 f2 m2 p2]
  show ?thesis
    by (auto simp: tv)
qed

text \<open>
  Seven rate-limit errors in a row, the last with a message of its own: that last
  error comes out, after seven calls and sleeps of 10 to 15 seconds.
\<close>

theorem transcribe_video_attempts_and_backoff_witness:
  "\<not> fps_rejected None
   \<and> get_video_part ai_studio youtube_uri None None None = Some youtube_part
   \<and> select_prompt None None None = Inr (TranscriptionPrompt ''MM:SS'')
   \<and> list_all
       (\<lambda>k. always_rate_limited youtube_request k = Raised (rate_limited_error k) \<and>
            should_retry_request
              \<lparr>outcome = Some (Raised (rate_limited_error k)), attempt_number = k\<rparr>)
       [1, 2, 3, 4, 5, 6, 7]
   \<and> transcribe_video ai_studio always_rate_limited youtube_uri None None None None None =
      \<lparr>result = Inl (ClientError 429 (Some ''quota exhausted, giving up'')),
       calls = 7, sleeps = [10, 11, 12, 13, 14, 15]\<rparr>"
proof -
  let ?tv = "transcribe_video ai_studio always_rate_limited youtube_uri
               None None None None None"
  have all: "\<forall>k \<in> {1..7}. always_rate_limited req k = Raised (rate_limited_error k) \<and>
       (rate_limited_error k = TryAgain \<or>
        should_retry_request
          \<lparr>outcome = Some (Raised (rate_limited_error k)), attempt_number = k\<rparr>)" for req
    by (simp add: always_rate_limited_def rate_limited_error_def should_retry_request_def)
  have last: "rate_limited_error 7 = ClientError 429 (Some ''quota exhausted, giving up'')"
    by (simp add: rate_limited_error_def)
  have "result ?tv = Inl (rate_limited_error 7) \<and> calls ?tv = 7
        \<and> sleeps ?tv = [10, 11, 12, 13, 14, 15]"
    using transcribe_video_attempts_and_backoff [OF youtube_request_reaches_invoker,
        of always_rate_limited None rate_limited_error
           ai_studio unparsed_remote "[]" None None None None None]
      all
    by (simp add: upt_conv_Cons)
  then have "?tv =
      \<lparr>result = Inl (ClientError 429 (Some ''quota exhausted, giving up'')),
       calls = 7, sleeps = [10, 11, 12, 13, 14, 15]\<rparr>"
    by (cases ?tv) (simp add: last)
  then show ?thesis
    using youtube_request_reaches_invoker
    by (simp add: always_rate_limited_def rate_limited_error_def should_retry_request_def)
qed

section \<open>Response interpreter\<close>

text \<open>
  C5. After any response has been parsed, \<open>total_segments\<close> is the length of
  \<open>script_segments\<close> and \<open>total_speakers\<close> the length of \<open>speakers\<close>; when the
  payload is a \<open>VideoTranscription\<close> the lists are those of the payload, so the
  counts the payload carried are overwritten. An aggregate of three segments carrying the
  count 99 has \<open>total_segments = 3\<close> after \<open>update_counts\<close>, and after parsing.
\<close>

theorem parse_response_recomputes_counts:
  "total_segments (parse_response response) =
     int (length (script_segments (parse_response response)))
   \<and> total_speakers (parse_response response) =
     int (length (speakers (parse_response response)))
   \<and> script_segments (parse_response \<lparr>parsed = ParsedTranscription t\<rparr>) = script_segments t
   \<and> speakers (parse_response \<lparr>parsed = ParsedTranscription t\<rparr>) = speakers t
   \<and> total_segments drifted_transcription = 99
   \<and> length (script_segments drifted_transcription) = 3
   \<and> total_segments (update_counts drifted_transcription) = 3
   \<and> total_segments (parse_response \<lparr>parsed = ParsedTranscription drifted_transcription\<rparr>) = 3
   \<and> total_speakers (parse_response \<lparr>parsed = ParsedTranscription drifted_transcription\<rparr>) = 1"
  by (cases "parsed response")
     (simp_all add: parse_response_def update_counts_def Let_def drifted_transcription_def
        VideoTranscription_default_def)

text \<open>
  C6. When the payload is not a \<open>VideoTranscription\<close>, the interpreter returns the
  default aggregate: no segments, no speakers, both counts zero. It is a value; the
  interpreter has no raising branch.
\<close>

theorem parse_response_unparsed_gives_default:
  assumes "\<forall>t. parsed response \<noteq> ParsedTranscription t"
  shows "parse_response response = VideoTranscription_default
     \<and> script_segments (parse_response response) = []
     \<and> speakers (parse_response response) = []
     \<and> total_segments (parse_response response) = 0
     \<and> total_speakers (parse_response response) = 0"
  using assms
  by (cases "parsed response") (simp_all add: parse_response_def VideoTranscription_default_def)

theorem parse_response_unparsed_gives_default_witness:
  "(\<forall>t. parsed \<lparr>parsed = ParsedNone\<rparr> \<noteq> ParsedTranscription t)
   \<and> parse_response \<lparr>parsed = ParsedNone\<rparr> = VideoTranscription_default
   \<and> script_segments (parse_response \<lparr>parsed = ParsedNone\<rparr>) = []
   \<and> speakers (parse_response \<lparr>parsed = ParsedNone\<rparr>) = []
   \<and> total_segments (parse_response \<lparr>parsed = ParsedNone\<rparr>) = 0"
  using parse_response_unparsed_gives_default [of "\<lparr>parsed = ParsedNone\<rparr>"]
  by (simp add: VideoTranscription_default_def)

section \<open>Inputs whose truth value is false\<close>

text \<open>
  C2, at the frame rate \<open>0.0\<close>. It is below \<open>MIN_FPS\<close>, yet the check
  \<^verbatim>\<open>fps and (...)\<close> lets it through, because \<open>0.0\<close> is false: no
  \<^verbatim>\<open>ValueError\<close> is raised and the remote model is called. (Every other frame rate
  outside the range is rejected before any call: \<open>fps_rejected_nonzero\<close>,
  \<open>fps_rejected_raises\<close>.)
\<close>

theorem zero_fps_passes_validation:
  "float_lt (Finite 0) MIN_FPS
   \<and> \<not> fps_rejected (Some (Finite 0))
   \<and> transcribe_video ai_studio unparsed_remote ''https://www.youtube.com/watch?v=abc123''
        None None (Some (Finite 0)) None None =
      \<lparr>result = Inr VideoTranscription_default, calls = 1, sleeps = []\<rparr>"
  by (simp add: fps_rejected_def MIN_FPS_def transcribe_video_def get_video_part_def
      rewrite_cloud_storage_uri_def ai_studio_def Let_def select_prompt_def window_duration_def
      call_once unparsed_remote_def should_retry_request_def parse_response_def
      is_explicit_retry_def)

text \<open>
  C7, at the window from \<open>timedelta(0)\<close> to two hours. Both offsets are given and
  the window lasts two hours, for which \<open>get_timecode_format\<close> answers
  \<^verbatim>\<open>H:MM:SS\<close>; but the start offset is false, so the duration passed on is
  \<^verbatim>\<open>None\<close> and the prompt asks for \<^verbatim>\<open>MM:SS\<close>. (\<open>get_timecode_format\<close> itself
  answers as the claim says: \<open>get_timecode_format_iff\<close>.)
\<close>

theorem zero_start_offset_selects_default_format:
  "window_duration (Some 0) (Some (timedelta_hours 2)) = Inr None
   \<and> select_prompt None (Some 0) (Some (timedelta_hours 2)) = Inr (TranscriptionPrompt ''MM:SS'')
   \<and> timedelta_sub (timedelta_hours 2) 0 = Inr (timedelta_hours 2)
   \<and> timedelta_hours 2 \<ge> timedelta_hours 1
   \<and> get_timecode_format (Some (timedelta_hours 2)) = ''H:MM:SS''"
  by (simp add: window_duration_def select_prompt_def timedelta_truthy_def timedelta_sub_def
      timedelta_hours_def timedelta_min_def timedelta_max_def get_timecode_format_def
      get_transcription_prompt_def DEFAULT_TIMECODE_FORMAT_def EXTENDED_TIMECODE_FORMAT_def)

end
